theory Spec2Isabelle
  imports Main "HOL-Library.Word" "HOL-Library.Sublist"
begin

unbundle bit_operations_syntax

section \<open>The interactsh server entry point (cmd/interactsh-server/main.go)\<close>

text \<open>
  \<^verbatim>\<open>main\<close> is orchestration: it reads the command line, calls into the storage, server,
  acme, nebula and logging packages in a fixed order and leaves the process either
  terminated or waiting for an interrupt. The embedding makes that explicit:
  \<^item> every call that leaves \<^verbatim>\<open>main.go\<close> is an \<open>event\<close> carrying the arguments the
    source passes;
  \<^item> what such a call returns (an error, a pointer, random bytes) is read from an
    environment record \<open>Env\<close>, so a theorem about all environments covers all outcomes
    of the calls;
  \<^item> a run is the list of events in program order together with how it ended.
\<close>

subsection \<open>Data\<close>

type_synonym byte = "8 word"

text \<open>Go's \<^verbatim>\<open>int\<close> on a 64-bit target and \<^verbatim>\<open>time.Duration\<close> (an \<^verbatim>\<open>int64\<close> of nanoseconds).\<close>

type_synonym int64 = "64 word"

text \<open>Pointers returned by the packages: \<^verbatim>\<open>*storage.Storage\<close> and \<^verbatim>\<open>*acme.AutoTLS\<close>
  (\<open>None\<close> is \<^verbatim>\<open>nil\<close>).\<close>

datatype store_ref = StoreRef nat
datatype tls_ref = TLSRef nat

text \<open>\<^verbatim>\<open>server.Options\<close>, with the fields \<^verbatim>\<open>main\<close> touches.\<close>

record Options =
  Domain_opt :: string
  IPAddress :: string
  ListenIP :: string
  Hostmaster :: string
  Auth :: bool
  Token :: string
  Template :: bool
  OriginURL :: string
  RootTLD :: bool
  Storage :: "store_ref option"

text \<open>The state after \<^verbatim>\<open>flag.Parse()\<close> (lines 23 to 44): the options filled from the
  command line and the local variables \<^verbatim>\<open>eviction\<close>, \<^verbatim>\<open>debug\<close>, \<^verbatim>\<open>skipacme\<close>,
  \<^verbatim>\<open>smb\<close>, \<^verbatim>\<open>responder\<close>.\<close>

record Args =
  arg_options :: Options
  arg_eviction :: int64
  arg_debug :: bool
  arg_skipacme :: bool
  arg_smb :: bool
  arg_responder :: bool

text \<open>What the calls made by \<^verbatim>\<open>main\<close> return. An error is its message; \<open>None\<close> is
  a \<^verbatim>\<open>nil\<close> error. \<^verbatim>\<open>rand.Read\<close> either fails or fills the whole buffer (byte \<open>i\<close> with
  \<open>f i\<close>). \<^verbatim>\<open>acme.NewAutomaticTLS\<close> returns a pointer and an error, and \<^verbatim>\<open>main\<close> keeps the
  pointer whatever the error is, so both are recorded.\<close>

record Env =
  randSource :: "(nat \<Rightarrow> byte) option"
  storePtr :: nat
  addFuncErr :: "string \<Rightarrow> string option"
  setIDErr :: "string \<Rightarrow> string option"
  dnsErr :: "string option"
  acmeTLS :: "tls_ref option"
  acmeErr :: "string option"
  httpErr :: "string option"
  smtpErr :: "string option"
  responderErr :: "string option"
  smbErr :: "string option"

text \<open>The function values \<^verbatim>\<open>main\<close> hands out: the two method values of the store given to
  nebula, and the closure \<^verbatim>\<open>func(txt string) { dnsServer.TxtRecord = txt }\<close>.\<close>

datatype callback =
    SetInternalById store_ref
  | CleanupInternalById store_ref
  | SetDNSTxtRecord

datatype event =
    SetMaxLevelDebug
  | SetWriterNoop
  | FmtPrintf string
  | OsExit int
  | RandRead nat
  | LogFatal string
  | LogWarning string
  | LogPrintf string
  | StorageNew int64
  | SetServerStorage store_ref
  | NebulaRefresh
  | NebulaAddFunc string callback
  | StoreSetID store_ref string
  | NewDNSServer Options
  | GoDNSListen
  | NewAutomaticTLS string string callback
  | NewHTTPServer Options
  | GoHTTPListen "tls_ref option"
  | NewSMTPServer Options
  | GoSMTPListen "tls_ref option"
  | NewResponderServer Options
  | GoResponderListen
  | DeferResponderClose
  | NewSMBServer Options
  | GoSMBListen
  | DeferSMBClose
  | SignalNotify

text \<open>A step either hands a value to the rest of \<^verbatim>\<open>main\<close> or ends the process with an
  exit status; the events made so far are kept in both cases.\<close>

datatype 'a step = Next 'a | Exited int

type_synonym 'a proc = "event list \<times> 'a step"

definition ret :: "'a \<Rightarrow> 'a proc" where
  "ret x = ([], Next x)"

definition emit :: "event \<Rightarrow> unit proc" where
  "emit e = ([e], Next ())"

definition andThen :: "'a proc \<Rightarrow> ('a \<Rightarrow> 'b proc) \<Rightarrow> 'b proc" where
  "andThen m k =
     (case m of
        (es, Exited c) \<Rightarrow> (es, Exited c)
      | (es, Next x) \<Rightarrow> (case k x of (es', r) \<Rightarrow> (es @ es', r)))"

definition trace :: "'a proc \<Rightarrow> event list" where
  "trace p = fst p"

definition outcome :: "'a proc \<Rightarrow> 'a step" where
  "outcome p = snd p"

subsection \<open>The library calls\<close>

text \<open>\<^verbatim>\<open>os.Exit(code)\<close> ends the process; deferred calls do not run.\<close>

definition os_Exit :: "int \<Rightarrow> 'a proc" where
  "os_Exit c = ([OsExit c], Exited c)"

text \<open>A method call through a \<^verbatim>\<open>nil\<close> pointer panics; the Go runtime exits with status 2.\<close>

definition nilPanic :: "'a proc" where
  "nilPanic = ([], Exited 2)"

text \<open>\<^verbatim>\<open>gologger.Fatal().Msgf\<close> hands the message to the logger and then exits with
  status 1; \<^verbatim>\<open>gologger.Warning().Msgf\<close> only hands the message to the logger.\<close>

definition gologger_Fatal :: "string \<Rightarrow> 'a proc" where
  "gologger_Fatal msg = ([LogFatal msg], Exited 1)"

definition gologger_Warning :: "string \<Rightarrow> unit proc" where
  "gologger_Warning msg = emit (LogWarning msg)"

text \<open>\<^verbatim>\<open>rand.Read(b)\<close> on a buffer of \<open>n\<close> bytes.\<close>

definition rand_Read :: "Env \<Rightarrow> nat \<Rightarrow> (string + byte list) proc" where
  "rand_Read env n =
     ([RandRead n],
      Next (case randSource env of
              None \<Rightarrow> Inl ''rand: read failed''
            | Some f \<Rightarrow> Inr (map f [0..<n])))"

text \<open>\<^verbatim>\<open>hex.EncodeToString\<close>: two lower-case digits per byte, high nibble first.\<close>

definition hextable :: string where
  "hextable = ''0123456789abcdef''"

definition hex_byte :: "byte \<Rightarrow> string" where
  "hex_byte v = [hextable ! unat (drop_bit 4 v), hextable ! unat (v AND 0x0f)]"

definition hex_EncodeToString :: "byte list \<Rightarrow> string" where
  "hex_EncodeToString src = concat (map hex_byte src)"

text \<open>\<^verbatim>\<open>time.Hour\<close> in nanoseconds.\<close>

definition time_Hour :: int64 where
  "time_Hour = 3600000000000"

definition storage_New :: "Env \<Rightarrow> int64 \<Rightarrow> store_ref proc" where
  "storage_New env evictionTTL = ([StorageNew evictionTTL], Next (StoreRef (storePtr env)))"

definition store_SetID :: "Env \<Rightarrow> store_ref \<Rightarrow> string \<Rightarrow> string option proc" where
  "store_SetID env s ID = ([StoreSetID s ID], Next (setIDErr env ID))"

definition nebula_AddFunc :: "Env \<Rightarrow> string \<Rightarrow> callback \<Rightarrow> string option proc" where
  "nebula_AddFunc env name f = ([NebulaAddFunc name f], Next (addFuncErr env name))"

definition server_NewDNSServer :: "Env \<Rightarrow> Options \<Rightarrow> string option proc" where
  "server_NewDNSServer env options = ([NewDNSServer options], Next (dnsErr env))"

definition acme_NewAutomaticTLS ::
  "Env \<Rightarrow> string \<Rightarrow> string \<Rightarrow> callback \<Rightarrow> (tls_ref option \<times> string option) proc" where
  "acme_NewAutomaticTLS env email domains dnsCallback =
     ([NewAutomaticTLS email domains dnsCallback], Next (acmeTLS env, acmeErr env))"

definition server_NewHTTPServer :: "Env \<Rightarrow> Options \<Rightarrow> string option proc" where
  "server_NewHTTPServer env options = ([NewHTTPServer options], Next (httpErr env))"

definition server_NewSMTPServer :: "Env \<Rightarrow> Options \<Rightarrow> string option proc" where
  "server_NewSMTPServer env options = ([NewSMTPServer options], Next (smtpErr env))"

definition server_NewResponderServer :: "Env \<Rightarrow> Options \<Rightarrow> string option proc" where
  "server_NewResponderServer env options = ([NewResponderServer options], Next (responderErr env))"

definition server_NewSMBServer :: "Env \<Rightarrow> Options \<Rightarrow> string option proc" where
  "server_NewSMBServer env options = ([NewSMBServer options], Next (smbErr env))"

text \<open>\<^verbatim>\<open>strings.TrimSuffix(s, ".")\<close>.\<close>

definition trimSuffixDot :: "string \<Rightarrow> string" where
  "trimSuffixDot s = (if s \<noteq> [] \<and> last s = CHR ''.'' then butlast s else s)"

subsection \<open>main.go\<close>

text \<open>Lines 150 to 152.\<close>

definition shouldEnableAuth :: "Options \<Rightarrow> bool \<Rightarrow> bool \<Rightarrow> bool" where
  "shouldEnableAuth options smb responder \<longleftrightarrow>
     Template options \<or> responder \<or> smb \<or> RootTLD options \<or> Token options \<noteq> ''''"

text \<open>Lines 46 to 48.\<close>

definition defaultHostmaster :: "Options \<Rightarrow> Options" where
  "defaultHostmaster options =
     (if Hostmaster options = ''''
      then options\<lparr>Hostmaster := ''admin@'' @ Domain_opt options\<rparr>
      else options)"

text \<open>Lines 49 to 53.\<close>

definition setupLogger :: "bool \<Rightarrow> unit proc" where
  "setupLogger debug = (if debug then emit SetMaxLevelDebug else emit SetWriterNoop)"

text \<open>Lines 55 to 59.\<close>

definition checkCompanions :: "bool \<Rightarrow> bool \<Rightarrow> unit proc" where
  "checkCompanions responder smb =
     (if responder \<and> smb
      then andThen (emit (FmtPrintf ''responder and smb can't be active at the same time\<newline>''))
             (\<lambda>_. os_Exit 1)
      else ret ())"

text \<open>Lines 63 to 70.\<close>

definition generateToken :: "Env \<Rightarrow> bool \<Rightarrow> Options \<Rightarrow> Options proc" where
  "generateToken env enableAuth options =
     (if enableAuth \<and> Token options = ''''
      then andThen (rand_Read env 32) (\<lambda>r.
             case r of
               Inl err \<Rightarrow> gologger_Fatal ''Could not generate token\<newline>''
             | Inr b \<Rightarrow>
                 andThen (ret (options\<lparr>Token := hex_EncodeToString b\<rparr>)) (\<lambda>options.
                 andThen (emit (LogPrintf (''Client Token: '' @ Token options @ ''\<newline>''))) (\<lambda>_.
                 ret options)))
      else ret options)"

text \<open>Lines 72 to 89.\<close>

definition setupStore :: "Env \<Rightarrow> int64 \<Rightarrow> bool \<Rightarrow> Options \<Rightarrow> Options proc" where
  "setupStore env eviction enableAuth options =
     andThen (storage_New env (eviction * time_Hour * 24)) (\<lambda>store.
     andThen (ret (options\<lparr>Storage := Some store\<rparr>)) (\<lambda>options.
     andThen (emit (SetServerStorage store)) (\<lambda>_.
     andThen (emit NebulaRefresh) (\<lambda>_.
     andThen (nebula_AddFunc env ''store_info'' (SetInternalById store)) (\<lambda>_.
     andThen (nebula_AddFunc env ''cleanup_info'' (CleanupInternalById store)) (\<lambda>_.
     andThen (if enableAuth
              then (case Storage options of
                      None \<Rightarrow> nilPanic
                    | Some s \<Rightarrow> andThen (store_SetID env s (Token options)) (\<lambda>_. ret ()))
              else ret ()) (\<lambda>_.
     andThen (if RootTLD options
              then andThen (store_SetID env store (Domain_opt options)) (\<lambda>_. ret ())
              else ret ()) (\<lambda>_.
     ret options))))))))"

text \<open>Lines 91 to 95.\<close>

definition startDNS :: "Env \<Rightarrow> Options \<Rightarrow> unit proc" where
  "startDNS env options =
     andThen (server_NewDNSServer env options) (\<lambda>err.
     andThen (if err \<noteq> None then gologger_Fatal ''Could not create DNS server'' else ret ()) (\<lambda>_.
     emit GoDNSListen))"

text \<open>Lines 97 to 109; the result is the value of \<^verbatim>\<open>autoTLS\<close>.\<close>

definition setupACME :: "Env \<Rightarrow> bool \<Rightarrow> Options \<Rightarrow> tls_ref option proc" where
  "setupACME env skipacme options =
     (let trimmedDomain = trimSuffixDot (Domain_opt options) in
      if \<not> skipacme
      then andThen (acme_NewAutomaticTLS env (Hostmaster options)
                      (''*.'' @ trimmedDomain @ '','' @ trimmedDomain) SetDNSTxtRecord) (\<lambda>(autoTLS, err).
           andThen (case err of
                      Some e \<Rightarrow>
                        andThen (gologger_Warning
                          (''An error occurred while applying for an certificate, error: '' @ e)) (\<lambda>_.
                        gologger_Warning
                          ''Could not generate certs for auto TLS, https will be disabled'')
                    | None \<Rightarrow> ret ()) (\<lambda>_.
           ret autoTLS))
      else ret None)"

text \<open>Lines 111 to 115.\<close>

definition startHTTP :: "Env \<Rightarrow> Options \<Rightarrow> tls_ref option \<Rightarrow> unit proc" where
  "startHTTP env options autoTLS =
     andThen (server_NewHTTPServer env options) (\<lambda>err.
     andThen (if err \<noteq> None then gologger_Fatal ''Could not create HTTP server'' else ret ()) (\<lambda>_.
     emit (GoHTTPListen autoTLS)))"

text \<open>Lines 117 to 121.\<close>

definition startSMTP :: "Env \<Rightarrow> Options \<Rightarrow> tls_ref option \<Rightarrow> unit proc" where
  "startSMTP env options autoTLS =
     andThen (server_NewSMTPServer env options) (\<lambda>err.
     andThen (if err \<noteq> None then gologger_Fatal ''Could not create SMTP server'' else ret ()) (\<lambda>_.
     emit (GoSMTPListen autoTLS)))"

text \<open>Lines 123 to 130.\<close>

definition startResponder :: "Env \<Rightarrow> bool \<Rightarrow> Options \<Rightarrow> unit proc" where
  "startResponder env responder options =
     (if responder
      then andThen (server_NewResponderServer env options) (\<lambda>err.
           andThen (if err \<noteq> None then gologger_Fatal ''Could not create SMB server'' else ret ()) (\<lambda>_.
           andThen (emit GoResponderListen) (\<lambda>_.
           emit DeferResponderClose)))
      else ret ())"

text \<open>Lines 132 to 139.\<close>

definition startSMB :: "Env \<Rightarrow> bool \<Rightarrow> Options \<Rightarrow> unit proc" where
  "startSMB env smb options =
     (if smb
      then andThen (server_NewSMBServer env options) (\<lambda>err.
           andThen (if err \<noteq> None then gologger_Fatal ''Could not create SMB server'' else ret ()) (\<lambda>_.
           andThen (emit GoSMBListen) (\<lambda>_.
           emit DeferSMBClose)))
      else ret ())"

text \<open>Lines 22 to 148, from the parsed command line to the point where \<^verbatim>\<open>main\<close> blocks on
  the signal channel (\<open>Next ()\<close>) or the process has ended (\<open>Exited c\<close>).\<close>

definition main :: "Args \<Rightarrow> Env \<Rightarrow> unit proc" where
  "main a env =
     andThen (ret (defaultHostmaster (arg_options a))) (\<lambda>options.
     andThen (setupLogger (arg_debug a)) (\<lambda>_.
     andThen (checkCompanions (arg_responder a) (arg_smb a)) (\<lambda>_.
     andThen (ret (shouldEnableAuth options (arg_smb a) (arg_responder a))) (\<lambda>enableAuth.
     andThen (generateToken env enableAuth options) (\<lambda>options.
     andThen (setupStore env (arg_eviction a) enableAuth options) (\<lambda>options.
     andThen (startDNS env options) (\<lambda>_.
     andThen (setupACME env (arg_skipacme a) options) (\<lambda>autoTLS.
     andThen (startHTTP env options autoTLS) (\<lambda>_.
     andThen (startSMTP env options autoTLS) (\<lambda>_.
     andThen (startResponder env (arg_responder a) options) (\<lambda>_.
     andThen (startSMB env (arg_smb a) options) (\<lambda>_.
     andThen (emit (LogPrintf ''Listening on DNS, SMTP and HTTP ports\<newline>'')) (\<lambda>_.
     emit SignalNotify)))))))))))))"

subsection \<open>A concrete command line and environment\<close>

text \<open>\<^verbatim>\<open>interactsh-server -domain example.com\<close>: every other flag at its default.\<close>

definition defaultOptions :: Options where
  "defaultOptions =
     \<lparr>Domain_opt = ''example.com'', IPAddress = '''', ListenIP = ''0.0.0.0'', Hostmaster = '''',
      Auth = False, Token = '''', Template = False,
      OriginURL = ''https://interact.projectdiscovery.io'', RootTLD = False, Storage = None\<rparr>"

definition defaultArgs :: Args where
  "defaultArgs =
     \<lparr>arg_options = defaultOptions, arg_eviction = 7, arg_debug = False, arg_skipacme = False,
      arg_smb = False, arg_responder = False\<rparr>"

text \<open>An environment in which every call succeeds.\<close>

definition goodEnv :: Env where
  "goodEnv =
     \<lparr>randSource = Some (\<lambda>i. 0xab), storePtr = 1, addFuncErr = (\<lambda>_. None),
      setIDErr = (\<lambda>_. None), dnsErr = None, acmeTLS = Some (TLSRef 1), acmeErr = None,
      httpErr = None, smtpErr = None, responderErr = None, smbErr = None\<rparr>"

section \<open>The authentication decision\<close>

text \<open>
  C1. For every command line, the value \<^verbatim>\<open>main\<close> computes for \<^verbatim>\<open>enableAuth\<close> (line 61, after
  the hostmaster default of lines 46 to 48) is true exactly when template upload is enabled,
  the SMB companion is requested, the responder companion is requested, root-TLD mode is on,
  or the supplied token is not the empty string. The \<^verbatim>\<open>-auth\<close> flag plays no part.
\<close>

theorem shouldEnableAuth_iff:
  "shouldEnableAuth (defaultHostmaster (arg_options a)) (arg_smb a) (arg_responder a) \<longleftrightarrow>
     Template (arg_options a) \<or> arg_smb a \<or> arg_responder a \<or> RootTLD (arg_options a)
       \<or> Token (arg_options a) \<noteq> ''''"
  by (auto simp: shouldEnableAuth_def defaultHostmaster_def)

theorem shouldEnableAuth_iff_witness:
  "shouldEnableAuth
     (defaultHostmaster (arg_options (defaultArgs\<lparr>arg_options := defaultOptions\<lparr>Token := ''s3cret''\<rparr>\<rparr>)))
     False False
   \<and> \<not> shouldEnableAuth
     (defaultHostmaster (arg_options (defaultArgs\<lparr>arg_options := defaultOptions\<lparr>Auth := True\<rparr>\<rparr>)))
     False False"
  using shouldEnableAuth_iff [of "defaultArgs\<lparr>arg_options := defaultOptions\<lparr>Token := ''s3cret''\<rparr>\<rparr>"]
    shouldEnableAuth_iff [of "defaultArgs\<lparr>arg_options := defaultOptions\<lparr>Auth := True\<rparr>\<rparr>"]
  by (simp add: defaultArgs_def defaultOptions_def)

end
